theory Spec2Isabelle
  imports Main "HOL-Library.Word"
begin

unbundle bit_operations_syntax

section \<open>The EGL function table (src/platform/egl-dri/egl.h)\<close>

text \<open>
  \<open>struct egl_env\<close> is a table of function pointers. A pointer is a value of the type
  parameter \<open>'p\<close>; the fields keep the order of the C declaration: EGLImage, DMA-Buf,
  EGLStreams, basic EGL.
\<close>

record 'p egl_env =
  create_image :: 'p
  destroy_image :: 'p
  image_target_texture2D :: 'p
  query_dmabuf_formats :: 'p
  query_dmabuf_modifiers :: 'p
  export_dmabuf :: 'p
  query_image_format :: 'p
  query_devices :: 'p
  query_device_string :: 'p
  get_platform_display :: 'p
  get_output_layers :: 'p
  create_stream :: 'p
  destroy_stream :: 'p
  stream_consumer_output :: 'p
  create_stream_producer_surface :: 'p
  stream_consumer_acquire :: 'p
  stream_consumer_acquire_attrib :: 'p
  destroy_surface :: 'p
  get_error :: 'p
  create_window_surface :: 'p
  make_current :: 'p
  get_display :: 'p
  initialize :: 'p
  bind_api :: 'p
  get_configs :: 'p
  choose_config :: 'p
  create_context :: 'p
  get_proc_address :: 'p
  destroy_context :: 'p
  terminate :: 'p
  query_string :: 'p
  swap_buffers :: 'p
  swap_interval :: 'p
  get_config_attrib :: 'p

text \<open>
  The caller's \<open>lookup(tag, sym, req)\<close> is a parameter: it maps the tag, the symbol name
  and the required flag to a pointer. The C functions write through \<open>denv\<close>; the model
  returns the updated table, one record update per assignment, in the order of the
  source.
\<close>

type_synonym ('t, 'p) lookup = "'t \<Rightarrow> string \<Rightarrow> bool \<Rightarrow> 'p"

definition map_eglext_functions ::
  "'p egl_env \<Rightarrow> ('t, 'p) lookup \<Rightarrow> 't \<Rightarrow> 'p egl_env" where
  "map_eglext_functions denv lookup tag =
     denv
       \<lparr>create_image := lookup tag ''eglCreateImageKHR'' False\<rparr>
       \<lparr>destroy_image := lookup tag ''eglDestroyImageKHR'' False\<rparr>
       \<lparr>image_target_texture2D := lookup tag ''glEGLImageTargetTexture2DOES'' False\<rparr>
       \<lparr>query_dmabuf_modifiers := lookup tag ''eglQueryDmaBufModifiersEXT'' False\<rparr>
       \<lparr>query_dmabuf_formats := lookup tag ''eglQueryDmaBufFormatsEXT'' False\<rparr>
       \<lparr>query_image_format := lookup tag ''eglExportDMABUFImageQueryMESA'' False\<rparr>
       \<lparr>export_dmabuf := lookup tag ''eglExportDMABUFImageMESA'' False\<rparr>
       \<lparr>query_device_string := lookup tag ''eglQueryDeviceStringEXT'' False\<rparr>
       \<lparr>query_devices := lookup tag ''eglQueryDevicesEXT'' False\<rparr>
       \<lparr>get_platform_display := lookup tag ''eglGetPlatformDisplayEXT'' False\<rparr>
       \<lparr>get_output_layers := lookup tag ''eglGetOutputLayersEXT'' False\<rparr>
       \<lparr>create_stream := lookup tag ''eglCreateStreamKHR'' False\<rparr>
       \<lparr>destroy_stream := lookup tag ''eglDestroyStreamKHR'' False\<rparr>
       \<lparr>stream_consumer_output := lookup tag ''eglStreamConsumerOutputEXT'' False\<rparr>
       \<lparr>create_stream_producer_surface :=
          lookup tag ''eglCreateStreamProducerSurfaceKHR'' False\<rparr>
       \<lparr>stream_consumer_acquire := lookup tag ''eglStreamConsumerAcquireKHR'' False\<rparr>
       \<lparr>stream_consumer_acquire_attrib :=
          lookup tag ''eglStreamConsumerAcquireAttribNV'' False\<rparr>"

definition map_egl_functions ::
  "'p egl_env \<Rightarrow> ('t, 'p) lookup \<Rightarrow> 't \<Rightarrow> 'p egl_env" where
  "map_egl_functions denv lookup tag =
     denv
       \<lparr>get_config_attrib := lookup tag ''eglGetConfigAttrib'' True\<rparr>
       \<lparr>destroy_surface := lookup tag ''eglDestroySurface'' True\<rparr>
       \<lparr>get_error := lookup tag ''eglGetError'' True\<rparr>
       \<lparr>create_window_surface := lookup tag ''eglCreateWindowSurface'' True\<rparr>
       \<lparr>make_current := lookup tag ''eglMakeCurrent'' True\<rparr>
       \<lparr>get_display := lookup tag ''eglGetDisplay'' True\<rparr>
       \<lparr>initialize := lookup tag ''eglInitialize'' True\<rparr>
       \<lparr>bind_api := lookup tag ''eglBindAPI'' True\<rparr>
       \<lparr>get_configs := lookup tag ''eglGetConfigs'' True\<rparr>
       \<lparr>choose_config := lookup tag ''eglChooseConfig'' True\<rparr>
       \<lparr>create_context := lookup tag ''eglCreateContext'' True\<rparr>
       \<lparr>destroy_context := lookup tag ''eglDestroyContext'' True\<rparr>
       \<lparr>terminate := lookup tag ''eglTerminate'' True\<rparr>
       \<lparr>query_string := lookup tag ''eglQueryString'' True\<rparr>
       \<lparr>swap_buffers := lookup tag ''eglSwapBuffers'' True\<rparr>
       \<lparr>swap_interval := lookup tag ''eglSwapInterval'' True\<rparr>"

section \<open>The input dispatch chain (src/shmif/arcan_tuiext.h, note at lines 154-157)\<close>

text \<open>
  The header declares the three input entry points of a buffer window and their result
  types: \<open>input_label(wnd, label, active)\<close> and \<open>input_utf8(wnd, u8, len)\<close> return
  \<open>bool\<close> (true: consumed), \<open>input_key(wnd, symest, scanmode, mods, subid)\<close> returns
  \<open>void\<close>. A handler receives the widget state and its own part of the event and gives
  back the state it leaves behind; \<open>len\<close> is the length of the byte list.
\<close>

datatype layer = Label | Utf8 | Key

record input_event =
  ev_label :: string
  ev_active :: bool
  ev_u8 :: "8 word list"
  ev_symest :: "32 word"
  ev_scanmode :: "8 word"
  ev_mods :: "8 word"
  ev_subid :: "16 word"

type_synonym 's label_handler = "'s \<Rightarrow> string \<Rightarrow> bool \<Rightarrow> bool \<times> 's"
type_synonym 's utf8_handler = "'s \<Rightarrow> 8 word list \<Rightarrow> bool \<times> 's"
type_synonym 's key_handler = "'s \<Rightarrow> 32 word \<Rightarrow> 8 word \<Rightarrow> 8 word \<Rightarrow> 16 word \<Rightarrow> 's"

text \<open>
  Modelled from the spec: the code that offers one event to the three layers is not in
  the sources (the header only documents the flow, \<open>input_label -> input_utf8 ->
  input_key\<close>, each stage returning true if consumed and the chain then cancelled).
  Spec 4.1: a single input event is offered in strict layer order, label, then UTF-8
  text, then raw key; the chain stops at the first layer that returns true; unconsumed
  events propagate to the next layer. The result is the list of layers that were handed
  the event, in the order they were called, and the state the last of them left.
\<close>

definition input_chain ::
  "'s label_handler \<Rightarrow> 's utf8_handler \<Rightarrow> 's key_handler \<Rightarrow> input_event \<Rightarrow> 's
     \<Rightarrow> layer list \<times> 's" where
  "input_chain on_label on_utf8 on_key ev s =
     (case on_label s (ev_label ev) (ev_active ev) of
        (True, s1) \<Rightarrow> ([Label], s1)
      | (False, s1) \<Rightarrow>
          (case on_utf8 s1 (ev_u8 ev) of
             (True, s2) \<Rightarrow> ([Label, Utf8], s2)
           | (False, s2) \<Rightarrow>
               ([Label, Utf8, Key],
                on_key s2 (ev_symest ev) (ev_scanmode ev) (ev_mods ev) (ev_subid ev))))"

text \<open>
  Handlers over a text buffer, for concrete runs: a label layer that consumes the label
  \<open>PASTE\<close> and nothing else, a UTF-8 layer that appends the bytes it is given and
  consumes them, a UTF-8 layer that declines everything, and a key layer that leaves the
  buffer alone. \<open>paste_event\<close> is a key press bound to the label \<open>PASTE\<close> that also
  carries the text \<open>v\<close>; \<open>typed_event\<close> is the same key press with no label.
\<close>

definition paste_label :: "8 word list label_handler" where
  "paste_label s l a = (l = ''PASTE'', s)"

definition append_utf8 :: "8 word list utf8_handler" where
  "append_utf8 s u8 = (True, s @ u8)"

definition decline_utf8 :: "8 word list utf8_handler" where
  "decline_utf8 s u8 = (False, s)"

definition ignore_key :: "8 word list key_handler" where
  "ignore_key s symest scanmode mods subid = s"

definition paste_event :: input_event where
  "paste_event =
     \<lparr>ev_label = ''PASTE'', ev_active = True, ev_u8 = [0x76],
      ev_symest = 0x76, ev_scanmode = 0, ev_mods = 0, ev_subid = 0\<rparr>"

definition typed_event :: input_event where
  "typed_event = paste_event\<lparr>ev_label := []\<rparr>"

section \<open>Properties of the EGL function table\<close>

text \<open>
  C10. \<open>map_egl_functions\<close> assigns each of the sixteen basic-EGL fields other than
  \<open>get_proc_address\<close> from \<open>lookup(tag, sym, true)\<close> with the field's own symbol name;
  \<open>get_proc_address\<close> is written by neither \<open>map_egl_functions\<close> nor
  \<open>map_eglext_functions\<close>, so it keeps its prior value after each of them and after both,
  in either order.
\<close>

theorem map_egl_functions_core_fields:
  "get_config_attrib (map_egl_functions denv lookup tag) = lookup tag ''eglGetConfigAttrib'' True
   \<and> destroy_surface (map_egl_functions denv lookup tag) = lookup tag ''eglDestroySurface'' True
   \<and> get_error (map_egl_functions denv lookup tag) = lookup tag ''eglGetError'' True
   \<and> create_window_surface (map_egl_functions denv lookup tag)
       = lookup tag ''eglCreateWindowSurface'' True
   \<and> make_current (map_egl_functions denv lookup tag) = lookup tag ''eglMakeCurrent'' True
   \<and> get_display (map_egl_functions denv lookup tag) = lookup tag ''eglGetDisplay'' True
   \<and> initialize (map_egl_functions denv lookup tag) = lookup tag ''eglInitialize'' True
   \<and> bind_api (map_egl_functions denv lookup tag) = lookup tag ''eglBindAPI'' True
   \<and> get_configs (map_egl_functions denv lookup tag) = lookup tag ''eglGetConfigs'' True
   \<and> choose_config (map_egl_functions denv lookup tag) = lookup tag ''eglChooseConfig'' True
   \<and> create_context (map_egl_functions denv lookup tag) = lookup tag ''eglCreateContext'' True
   \<and> destroy_context (map_egl_functions denv lookup tag) = lookup tag ''eglDestroyContext'' True
   \<and> terminate (map_egl_functions denv lookup tag) = lookup tag ''eglTerminate'' True
   \<and> query_string (map_egl_functions denv lookup tag) = lookup tag ''eglQueryString'' True
   \<and> swap_buffers (map_egl_functions denv lookup tag) = lookup tag ''eglSwapBuffers'' True
   \<and> swap_interval (map_egl_functions denv lookup tag) = lookup tag ''eglSwapInterval'' True
   \<and> get_proc_address (map_egl_functions denv lookup tag) = get_proc_address denv
   \<and> get_proc_address (map_eglext_functions denv lookup' tag') = get_proc_address denv
   \<and> get_proc_address (map_eglext_functions (map_egl_functions denv lookup tag) lookup' tag')
       = get_proc_address denv
   \<and> get_proc_address (map_egl_functions (map_eglext_functions denv lookup' tag') lookup tag)
       = get_proc_address denv"
  by (simp add: map_egl_functions_def map_eglext_functions_def)

section \<open>Properties of the input dispatch chain\<close>

text \<open>
  C2. For every event and every three handlers, the layers are handed the event in the
  order label, UTF-8, key, and the chain stops at the first layer that returns true:
  if the label layer consumes, only it saw the event and the state is the one it left,
  whatever the UTF-8 and key handlers are (so a consumed label never also inserts the
  event's UTF-8 text); if the label layer passes and the UTF-8 layer consumes, the key
  layer never sees the event; the key layer runs only when both passed.
\<close>

theorem input_chain_stops_at_first_consumer:
  "fst (input_chain on_label on_utf8 on_key ev s)
     \<in> {[Label], [Label, Utf8], [Label, Utf8, Key]}
   \<and> (fst (on_label s (ev_label ev) (ev_active ev)) \<longrightarrow>
        input_chain on_label on_utf8 on_key ev s
          = ([Label], snd (on_label s (ev_label ev) (ev_active ev)))
        \<and> input_chain on_label on_utf8 on_key ev s
          = input_chain on_label on_utf8' on_key' ev s)
   \<and> (\<not> fst (on_label s (ev_label ev) (ev_active ev))
        \<and> fst (on_utf8 (snd (on_label s (ev_label ev) (ev_active ev))) (ev_u8 ev)) \<longrightarrow>
        input_chain on_label on_utf8 on_key ev s
          = ([Label, Utf8],
             snd (on_utf8 (snd (on_label s (ev_label ev) (ev_active ev))) (ev_u8 ev)))
        \<and> input_chain on_label on_utf8 on_key ev s
          = input_chain on_label on_utf8 on_key' ev s)
   \<and> (\<not> fst (on_label s (ev_label ev) (ev_active ev))
        \<and> \<not> fst (on_utf8 (snd (on_label s (ev_label ev) (ev_active ev))) (ev_u8 ev)) \<longrightarrow>
        input_chain on_label on_utf8 on_key ev s
          = ([Label, Utf8, Key],
             on_key (snd (on_utf8 (snd (on_label s (ev_label ev) (ev_active ev))) (ev_u8 ev)))
               (ev_symest ev) (ev_scanmode ev) (ev_mods ev) (ev_subid ev)))"
proof -
  obtain c1 s1 where l: "on_label s (ev_label ev) (ev_active ev) = (c1, s1)"
    by (cases "on_label s (ev_label ev) (ev_active ev)")
  obtain c2 s2 where u: "on_utf8 s1 (ev_u8 ev) = (c2, s2)"
    by (cases "on_utf8 s1 (ev_u8 ev)")
  show ?thesis
    by (cases c1; cases c2) (simp_all add: input_chain_def l u)
qed

theorem input_chain_stops_at_first_consumer_witness:
  "fst (paste_label [0x61] (ev_label paste_event) (ev_active paste_event))
   \<and> input_chain paste_label append_utf8 ignore_key paste_event [0x61] = ([Label], [0x61])
   \<and> \<not> fst (paste_label [0x61] (ev_label typed_event) (ev_active typed_event))
   \<and> fst (append_utf8 [0x61] (ev_u8 typed_event))
   \<and> input_chain paste_label append_utf8 ignore_key typed_event [0x61]
       = ([Label, Utf8], [0x61, 0x76])
   \<and> \<not> fst (decline_utf8 [0x61] (ev_u8 typed_event))
   \<and> input_chain paste_label decline_utf8 ignore_key typed_event [0x61]
       = ([Label, Utf8, Key], [0x61])"
  using
    input_chain_stops_at_first_consumer
      [of paste_label append_utf8 ignore_key paste_event "[0x61]" decline_utf8 ignore_key]
    input_chain_stops_at_first_consumer
      [of paste_label append_utf8 ignore_key typed_event "[0x61]" append_utf8 ignore_key]
    input_chain_stops_at_first_consumer
      [of paste_label decline_utf8 ignore_key typed_event "[0x61]" decline_utf8 ignore_key]
  by (simp add: paste_label_def append_utf8_def decline_utf8_def ignore_key_def
      paste_event_def typed_event_def)

end
